theory Spec2Isabelle
  imports Main
begin

section \<open>Errors\<close>

text \<open>
  Go's \<^verbatim>\<open>error\<close> values, as far as the package \<^verbatim>\<open>llm\<close> produces and inspects them.
  \<^item> \<open>EOF\<close> is the sentinel \<^verbatim>\<open>io.EOF\<close>.
  \<^item> \<open>ContextError\<close> is what \<^verbatim>\<open>ctx.Err()\<close> returns.
  \<^item> \<open>HTTPError c m\<close> is \<^verbatim>\<open>&HTTPError{StatusCode: c, Message: m}\<close>.
  \<^item> \<open>Opaque m\<close> is an error with no cause attached: \<^verbatim>\<open>errors.New(m)\<close>,
    \<^verbatim>\<open>fmt.Errorf\<close> without \<^verbatim>\<open>%w\<close>, or an error of a library.
  \<^item> \<open>Wrapped m e\<close> is \<^verbatim>\<open>fmt.Errorf("m: %w", e)\<close>, or any other error whose
    \<^verbatim>\<open>Unwrap\<close> gives \<open>e\<close>.
\<close>

datatype ctx_error = Canceled | DeadlineExceeded

datatype error =
    EOF
  | ContextError ctx_error
  | HTTPError int string
  | Opaque string
  | Wrapped string error

text \<open>\<^verbatim>\<open>errors.As(err, &httpErr)\<close> with \<^verbatim>\<open>httpErr *HTTPError\<close>: the first
  \<^verbatim>\<open>*HTTPError\<close> on the chain of \<^verbatim>\<open>Unwrap\<close>.\<close>

fun errors_As_HTTPError :: "error \<Rightarrow> (int \<times> string) option" where
  "errors_As_HTTPError (HTTPError c m) = Some (c, m)"
| "errors_As_HTTPError (Wrapped m e) = errors_As_HTTPError e"
| "errors_As_HTTPError EOF = None"
| "errors_As_HTTPError (ContextError e) = None"
| "errors_As_HTTPError (Opaque m) = None"

section \<open>Data model (types.go and the wire structs)\<close>

record ToolCall =
  ID :: string
  Type :: string
  Function_Name :: string
  Function_Arguments :: string

record CompletionResponse =
  Content :: string
  Model :: string
  FinishReason :: string
  ToolCalls :: "ToolCall list"

text \<open>The wire structs. Field names carry the struct's initials, since several structs
  of the source share the names \<^verbatim>\<open>Content\<close>, \<^verbatim>\<open>Model\<close> and \<^verbatim>\<open>Error\<close>.
  \<^verbatim>\<open>Error *struct{Message string}\<close> is an optional message.\<close>

record openaiMessage =
  msg_Role :: string
  msg_Content :: string
  msg_ToolCalls :: "ToolCall list"
  msg_ToolCallID :: string
  msg_Name :: string

record choice =
  ch_Message :: openaiMessage
  ch_FinishReason :: string
  ch_Delta :: openaiMessage

record openaiResponse =
  oa_ID :: string
  oa_Choices :: "choice list"
  oa_Model :: string
  oa_Error :: "string option"

record contentBlock =
  cb_Text :: string
  cb_Type :: string

record anthropicResponse =
  an_Content :: "contentBlock list"
  an_Model :: string
  an_StopReason :: string
  an_Error :: "string option"

section \<open>Bytes\<close>

definition LF :: char where
  "LF = CHR 0x0A"

definition HasPrefix :: "string \<Rightarrow> string \<Rightarrow> bool" where
  "HasPrefix s p = (take (length p) s = p)"

definition HasSuffix :: "string \<Rightarrow> string \<Rightarrow> bool" where
  "HasSuffix s p = (length p \<le> length s \<and> drop (length s - length p) s = p)"

definition TrimPrefix :: "string \<Rightarrow> string \<Rightarrow> string" where
  "TrimPrefix s p = (if HasPrefix s p then drop (length p) s else s)"

text \<open>
  \<^verbatim>\<open>bytes.TrimSpace\<close> and \<^verbatim>\<open>strings.TrimSpace\<close> remove the white space runes of
  \<^verbatim>\<open>unicode.IsSpace\<close> from both ends of UTF-8 text: the six ASCII bytes below, and the
  runes U+0085, U+00A0, U+1680, U+2000..U+200A, U+2028, U+2029, U+202F, U+205F and
  U+3000, listed here by their UTF-8 encodings. A byte sequence that is not such an
  encoding decodes to a rune that is not white space and stops the trimming.
\<close>

definition asciiSpace :: "char list" where
  "asciiSpace = [CHR 0x09, CHR 0x0A, CHR 0x0B, CHR 0x0C, CHR 0x0D, CHR 0x20]"

definition unicodeSpace :: "string list" where
  "unicodeSpace =
    [[CHR 0xC2, CHR 0x85], [CHR 0xC2, CHR 0xA0], [CHR 0xE1, CHR 0x9A, CHR 0x80],
     [CHR 0xE2, CHR 0x80, CHR 0x80], [CHR 0xE2, CHR 0x80, CHR 0x81],
     [CHR 0xE2, CHR 0x80, CHR 0x82], [CHR 0xE2, CHR 0x80, CHR 0x83],
     [CHR 0xE2, CHR 0x80, CHR 0x84], [CHR 0xE2, CHR 0x80, CHR 0x85],
     [CHR 0xE2, CHR 0x80, CHR 0x86], [CHR 0xE2, CHR 0x80, CHR 0x87],
     [CHR 0xE2, CHR 0x80, CHR 0x88], [CHR 0xE2, CHR 0x80, CHR 0x89],
     [CHR 0xE2, CHR 0x80, CHR 0x8A], [CHR 0xE2, CHR 0x80, CHR 0xA8],
     [CHR 0xE2, CHR 0x80, CHR 0xA9], [CHR 0xE2, CHR 0x80, CHR 0xAF],
     [CHR 0xE2, CHR 0x81, CHR 0x9F], [CHR 0xE3, CHR 0x80, CHR 0x80]]"

text \<open>The number of bytes of the white space rune a text starts (ends) with; 0 when it
  starts (ends) with none.\<close>

definition leadingSpace :: "string \<Rightarrow> nat" where
  "leadingSpace s =
     (case s of
        [] \<Rightarrow> 0
      | c # cs \<Rightarrow>
          if c \<in> set asciiSpace then 1
          else (case find (HasPrefix s) unicodeSpace of Some e \<Rightarrow> length e | None \<Rightarrow> 0))"

definition trailingSpace :: "string \<Rightarrow> nat" where
  "trailingSpace s =
     (if s = [] then 0
      else if last s \<in> set asciiSpace then 1
      else (case find (HasSuffix s) unicodeSpace of Some e \<Rightarrow> length e | None \<Rightarrow> 0))"

function TrimLeft :: "string \<Rightarrow> string" where
  "TrimLeft s = (if leadingSpace s = 0 then s else TrimLeft (drop (leadingSpace s) s))"
  by pat_completeness auto
termination
  by (relation "measure length") (auto simp: leadingSpace_def split: list.splits)

declare TrimLeft.simps [simp del]

function TrimRight :: "string \<Rightarrow> string" where
  "TrimRight s =
     (if trailingSpace s = 0 then s else TrimRight (take (length s - trailingSpace s) s))"
  by pat_completeness auto
termination
  by (relation "measure length") (auto simp: trailingSpace_def split: if_splits)

declare TrimRight.simps [simp del]

definition TrimSpace :: "string \<Rightarrow> string" where
  "TrimSpace s = TrimRight (TrimLeft s)"

section \<open>The buffered reader over a response body\<close>

text \<open>
  A \<^verbatim>\<open>bufio.Reader\<close> over a response body: the bytes the body still delivers, and the
  error its \<^verbatim>\<open>Read\<close> reports once they are used up (\<open>EOF\<close> for a body that ends
  cleanly), which it keeps reporting from then on.
\<close>

record reader =
  pending :: string
  ending :: error

text \<open>The first line of a text, delimiter included, and what follows it; \<open>None\<close> when
  the text has no delimiter.\<close>

fun cut_line :: "string \<Rightarrow> (string \<times> string) option" where
  "cut_line [] = None"
| "cut_line (c # cs) =
     (if c = LF then Some ([c], cs)
      else (case cut_line cs of None \<Rightarrow> None | Some (l, rest) \<Rightarrow> Some (c # l, rest)))"

text \<open>\<^verbatim>\<open>ReadBytes('\n')\<close>: the bytes up to and including the first delimiter; when the
  input ends before a delimiter, the bytes read so far together with the error.\<close>

definition ReadBytes :: "reader \<Rightarrow> string \<times> error option \<times> reader" where
  "ReadBytes r =
     (case cut_line (pending r) of
        Some (l, rest) \<Rightarrow> (l, None, r\<lparr>pending := rest\<rparr>)
      | None \<Rightarrow> (pending r, Some (ending r), r\<lparr>pending := []\<rparr>))"

text \<open>An \<^verbatim>\<open>io.ReadCloser\<close> (the body of a response), and the two stream structs, which
  have the same two fields.\<close>

record ReadCloser =
  src :: reader
  closed :: bool

record stream =
  reader :: reader
  closer :: ReadCloser

text \<open>The result of \<^verbatim>\<open>Recv\<close>, a pair \<^verbatim>\<open>(*CompletionResponse, error)\<close>:
  \<open>Inl e\<close> is \<^verbatim>\<open>(nil, e)\<close>, \<open>Inr (Some c)\<close> is \<^verbatim>\<open>(&c, nil)\<close> and \<open>Inr None\<close> is
  \<^verbatim>\<open>(nil, nil)\<close>.\<close>

type_synonym recv_result = "error + CompletionResponse option"

section \<open>openAIStream.Recv\<close>

text \<open>
  \<^verbatim>\<open>json.Unmarshal\<close> belongs to Go's library: it is the parameter \<open>U\<close>, from the bytes
  to the decoded struct or the message of the library's error (never \<^verbatim>\<open>io.EOF\<close>).
\<close>

function openAIStream_Recv ::
  "(string \<Rightarrow> string + openaiResponse) \<Rightarrow> stream \<Rightarrow> recv_result \<times> stream" where
  "openAIStream_Recv U s =
     (case ReadBytes (reader s) of
        (line, Some err, r') \<Rightarrow>
          if err = EOF then (Inl EOF, s\<lparr>reader := r'\<rparr>)
          else (Inl (Wrapped ''failed to read stream'' err), s\<lparr>reader := r'\<rparr>)
      | (line, None, r') \<Rightarrow>
          if TrimSpace line = [] then openAIStream_Recv U (s\<lparr>reader := r'\<rparr>)
          else if \<not> HasPrefix (TrimSpace line) ''data: '' then
            openAIStream_Recv U (s\<lparr>reader := r'\<rparr>)
          else if TrimSpace (TrimPrefix (TrimSpace line) ''data: '') = ''[DONE]'' then
            (Inl EOF, s\<lparr>reader := r'\<rparr>)
          else
            (case U (TrimPrefix (TrimSpace line) ''data: '') of
               Inl m \<Rightarrow>
                 (Inl (Wrapped ''failed to decode stream response'' (Opaque m)),
                  s\<lparr>reader := r'\<rparr>)
             | Inr streamResp \<Rightarrow>
                 (case oa_Error streamResp of
                    Some m \<Rightarrow> (Inl (Opaque (''OpenAI API error: '' @ m)), s\<lparr>reader := r'\<rparr>)
                  | None \<Rightarrow>
                      (case oa_Choices streamResp of
                         [] \<Rightarrow> openAIStream_Recv U (s\<lparr>reader := r'\<rparr>)
                       | c # cs \<Rightarrow>
                           (Inr (Some \<lparr>Content = msg_Content (ch_Delta c),
                                       Model = oa_Model streamResp,
                                       FinishReason = ch_FinishReason c,
                                       ToolCalls = msg_ToolCalls (ch_Delta c)\<rparr>),
                            s\<lparr>reader := r'\<rparr>)))))"
  by pat_completeness auto
termination
proof -
  have cut: "length rest < length t" if "cut_line t = Some (l, rest)" for t l rest
    using that by (induction t arbitrary: l) (auto split: if_splits option.splits)
  have shorter: "length (pending r') < length (pending r)"
    if "(l, None, r') = ReadBytes r" for l r r'
    using that by (auto simp: ReadBytes_def split: option.splits dest: cut)
  show ?thesis
    by (relation "measure (\<lambda>(U, s). length (pending (reader s)))")
       (auto dest: shorter)
qed

declare openAIStream_Recv.simps [simp del]

section \<open>anthropicStream.Recv\<close>

definition anthropicStream_Recv ::
  "(string \<Rightarrow> string + anthropicResponse) \<Rightarrow> stream \<Rightarrow> recv_result \<times> stream" where
  "anthropicStream_Recv U s =
     (case ReadBytes (reader s) of
        (line, Some err, r') \<Rightarrow> (Inl err, s\<lparr>reader := r'\<rparr>)
      | (line, None, r') \<Rightarrow>
          if \<not> HasPrefix line ''data: '' then
            (Inl (Opaque ''invalid SSE format''), s\<lparr>reader := r'\<rparr>)
          else if TrimPrefix line ''data: '' = [] then (Inr None, s\<lparr>reader := r'\<rparr>)
          else
            (case U (TrimPrefix line ''data: '') of
               Inl m \<Rightarrow> (Inl (Opaque m), s\<lparr>reader := r'\<rparr>)
             | Inr streamResp \<Rightarrow>
                 (case an_Error streamResp of
                    Some m \<Rightarrow>
                      (Inl (Opaque (''anthropic API error: '' @ m)), s\<lparr>reader := r'\<rparr>)
                  | None \<Rightarrow>
                      (case an_Content streamResp of
                         [] \<Rightarrow> (Inr None, s\<lparr>reader := r'\<rparr>)
                       | b # bs \<Rightarrow>
                           (Inr (Some \<lparr>Content = cb_Text b,
                                       Model = an_Model streamResp,
                                       FinishReason = an_StopReason streamResp,
                                       ToolCalls = []\<rparr>),
                            s\<lparr>reader := r'\<rparr>)))))"

section \<open>The retry policy (openai.go)\<close>

text \<open>\<^verbatim>\<open>time.Duration\<close> is an \<^verbatim>\<open>int64\<close> count of nanoseconds. The status codes and
  \<^verbatim>\<open>MaxRetries\<close> are Go \<^verbatim>\<open>int\<close>s.\<close>

record RetryConfig =
  MaxRetries :: int
  InitialDelay :: int
  MaxDelay :: int
  RetryableStatusCodes :: "int list"

text \<open>\<^verbatim>\<open>NewOpenAIClient\<close>, as far as the retry policy goes: a nil \<^verbatim>\<open>RetryConfig\<close> is
  replaced by the default one.\<close>

definition NewOpenAIClient :: "RetryConfig option \<Rightarrow> RetryConfig" where
  "NewOpenAIClient rc =
     (case rc of
        None \<Rightarrow>
          \<lparr>MaxRetries = 3, InitialDelay = 1000000000, MaxDelay = 5 * 1000000000,
           RetryableStatusCodes = [429, 500, 502, 503]\<rparr>
      | Some c \<Rightarrow> c)"

text \<open>The value an \<^verbatim>\<open>int64\<close> holds after an arithmetic operation whose exact result is
  \<open>x\<close>: two's complement wrap-around.\<close>

definition wrap64 :: "int \<Rightarrow> int" where
  "wrap64 x = (x + 2 ^ 63) mod 2 ^ 64 - 2 ^ 63"

text \<open>
  \<^verbatim>\<open>delay := InitialDelay * time.Duration(1<<uint(attempt-1))\<close>. The constant 1 takes
  the type \<^verbatim>\<open>time.Duration\<close>; \<^verbatim>\<open>uint(attempt-1)\<close> is the count modulo \<open>2^64\<close>; a
  shift by 64 or more gives 0; the shift and the product wrap around.
\<close>

definition getRetryDelay :: "RetryConfig \<Rightarrow> int \<Rightarrow> int" where
  "getRetryDelay cfg attempt =
     (let count = (attempt - 1) mod 2 ^ 64;
          factor = (if 64 \<le> count then 0 else wrap64 (2 ^ nat count));
          delay = wrap64 (InitialDelay cfg * factor)
      in if delay > MaxDelay cfg then MaxDelay cfg else delay)"

definition shouldRetry :: "RetryConfig \<Rightarrow> error \<Rightarrow> bool" where
  "shouldRetry cfg err =
     (case errors_As_HTTPError err of
        None \<Rightarrow> False
      | Some (code, msg) \<Rightarrow> code \<in> set (RetryableStatusCodes cfg))"

section \<open>The HTTP exchange\<close>

text \<open>
  What one pass through the request code meets outside the package: \<^verbatim>\<open>json.Marshal\<close>
  fails, \<^verbatim>\<open>http.NewRequestWithContext\<close> fails, \<^verbatim>\<open>httpClient.Do\<close> fails, or the
  server responds with a status and a body.
\<close>

record Response =
  StatusCode :: int
  Body :: reader

datatype exchange =
    MarshalFails error
  | NewRequestFails error
  | DoFails error
  | Responds Response

definition Close :: "ReadCloser \<Rightarrow> ReadCloser" where
  "Close b = b\<lparr>closed := True\<rparr>"

text \<open>\<^verbatim>\<open>io.ReadAll\<close> on a response body, its error dropped as both callers drop it: all
  the bytes left, and none from a body that is closed.\<close>

definition ReadAll :: "ReadCloser \<Rightarrow> string \<times> ReadCloser" where
  "ReadAll b =
     (if closed b then ([], b)
      else (pending (src b), b\<lparr>src := (src b)\<lparr>pending := []\<rparr>\<rparr>))"

section \<open>OpenAIClient.complete and OpenAIClient.Complete\<close>

text \<open>\<^verbatim>\<open>json.NewDecoder(resp.Body).Decode\<close> is the parameter \<open>D\<close>, from the bytes of the
  body to the decoded struct or the decoder's error.\<close>

definition OpenAIClient_complete ::
  "(string \<Rightarrow> error + openaiResponse) \<Rightarrow> exchange \<Rightarrow> error + CompletionResponse" where
  "OpenAIClient_complete D x =
     (case x of
        MarshalFails e \<Rightarrow> Inl (Wrapped ''failed to marshal request'' e)
      | NewRequestFails e \<Rightarrow> Inl (Wrapped ''failed to create request'' e)
      | DoFails e \<Rightarrow> Inl (Wrapped ''request failed'' e)
      | Responds resp \<Rightarrow>
          if StatusCode resp \<noteq> 200 then
            Inl (HTTPError (StatusCode resp)
                   (fst (ReadAll \<lparr>src = Body resp, closed = False\<rparr>)))
          else
            (case D (pending (Body resp)) of
               Inl e \<Rightarrow> Inl (Wrapped ''failed to decode response'' e)
             | Inr openaiResp \<Rightarrow>
                 (case oa_Error openaiResp of
                    Some m \<Rightarrow> Inl (Opaque (''OpenAI API error: '' @ m))
                  | None \<Rightarrow>
                      (case oa_Choices openaiResp of
                         [] \<Rightarrow> Inl (Opaque ''no completion choices returned'')
                       | c # cs \<Rightarrow>
                           Inr \<lparr>Content = msg_Content (ch_Message c),
                                Model = oa_Model openaiResp,
                                FinishReason = ch_FinishReason c,
                                ToolCalls = msg_ToolCalls (ch_Message c)\<rparr>))))"

text \<open>
  What a call of \<^verbatim>\<open>Complete\<close> did: its result, the number of single attempts it made
  and the delays it handed to \<^verbatim>\<open>time.After\<close>, in order.
\<close>

record outcome =
  result :: "error + CompletionResponse"
  attempts :: nat
  delays :: "int list"

text \<open>\<^verbatim>\<open>fmt.Errorf("max retries exceeded: %w", lastErr)\<close>; \<open>lastErr\<close> is nil when the loop
  body never ran.\<close>

definition retries_exceeded :: "error option \<Rightarrow> error" where
  "retries_exceeded lastErr =
     (case lastErr of
        Some e \<Rightarrow> Wrapped ''max retries exceeded'' e
      | None \<Rightarrow> Opaque ''max retries exceeded: %!w(<nil>)'')"

text \<open>
  The loop of \<^verbatim>\<open>Complete\<close>, from the iteration \<open>attempt\<close> on. \<open>xs k\<close> is the exchange
  the attempt \<open>k\<close> meets. \<open>ctx k\<close> is the branch the \<^verbatim>\<open>select\<close> before attempt \<open>k\<close>
  takes: \<open>Some e\<close> when \<^verbatim>\<open>ctx.Done()\<close> is received, with \<^verbatim>\<open>ctx.Err() = e\<close>, and \<open>None\<close>
  when the timer fires (there is no \<^verbatim>\<open>select\<close> before attempt 0). \<open>calls\<close> counts the calls of \<^verbatim>\<open>c.complete\<close> so far, \<open>ds\<close> lists
  the delays so far. The counter \<open>attempt\<close> is a natural number: it starts at 0 and
  only grows, and no run reaches the bound of a machine integer.
\<close>

function Complete_loop ::
  "RetryConfig \<Rightarrow> (string \<Rightarrow> error + openaiResponse) \<Rightarrow> (nat \<Rightarrow> exchange) \<Rightarrow>
   (nat \<Rightarrow> ctx_error option) \<Rightarrow> nat \<Rightarrow> error option \<Rightarrow> nat \<Rightarrow> int list \<Rightarrow> outcome" where
  "Complete_loop cfg D xs ctx attempt lastErr calls ds =
     (if int attempt \<le> MaxRetries cfg then
        (case (if attempt > 0 then ctx attempt else None) of
           Some e \<Rightarrow>
             \<lparr>result = Inl (ContextError e), attempts = calls,
              delays = ds @ [getRetryDelay cfg (int attempt)]\<rparr>
         | None \<Rightarrow>
             (case OpenAIClient_complete D (xs attempt) of
                Inr resp \<Rightarrow>
                  \<lparr>result = Inr resp, attempts = Suc calls,
                   delays =
                     (if attempt > 0 then ds @ [getRetryDelay cfg (int attempt)] else ds)\<rparr>
              | Inl e \<Rightarrow>
                  if \<not> shouldRetry cfg e then
                    \<lparr>result = Inl e, attempts = Suc calls,
                     delays =
                       (if attempt > 0 then ds @ [getRetryDelay cfg (int attempt)] else ds)\<rparr>
                  else
                    Complete_loop cfg D xs ctx (Suc attempt) (Some e) (Suc calls)
                      (if attempt > 0 then ds @ [getRetryDelay cfg (int attempt)] else ds)))
      else \<lparr>result = Inl (retries_exceeded lastErr), attempts = calls, delays = ds\<rparr>)"
  by pat_completeness auto
termination
  by (relation "measure (\<lambda>(cfg, D, xs, ctx, attempt, rest). nat (MaxRetries cfg + 1 - int attempt))")
     auto

declare Complete_loop.simps [simp del]

definition OpenAIClient_Complete ::
  "RetryConfig \<Rightarrow> (string \<Rightarrow> error + openaiResponse) \<Rightarrow> (nat \<Rightarrow> exchange) \<Rightarrow>
   (nat \<Rightarrow> ctx_error option) \<Rightarrow> outcome" where
  "OpenAIClient_Complete cfg D xs ctx = Complete_loop cfg D xs ctx 0 None 0 []"

text \<open>An attempt that fails with an error the policy retries, and the delays before the
  attempts \<open>1, \<dots>, n - 1\<close>.\<close>

definition retryable_failure ::
  "RetryConfig \<Rightarrow> (string \<Rightarrow> error + openaiResponse) \<Rightarrow> exchange \<Rightarrow> bool" where
  "retryable_failure cfg D x =
     (case OpenAIClient_complete D x of Inl e \<Rightarrow> shouldRetry cfg e | Inr resp \<Rightarrow> False)"

definition backoff :: "RetryConfig \<Rightarrow> nat \<Rightarrow> int list" where
  "backoff cfg n = map (\<lambda>k. getRetryDelay cfg (int k)) [1..<n]"

section \<open>AnthropicClient.Complete\<close>

text \<open>The body of \<^verbatim>\<open>AnthropicClient.Complete\<close> is one pass with no loop and no timer:
  it meets the exchange \<open>xs 0\<close> only.\<close>

definition AnthropicClient_Complete ::
  "(string \<Rightarrow> error + anthropicResponse) \<Rightarrow> (nat \<Rightarrow> exchange) \<Rightarrow> outcome" where
  "AnthropicClient_Complete D xs =
     \<lparr>result =
        (case xs 0 of
           MarshalFails e \<Rightarrow> Inl e
         | NewRequestFails e \<Rightarrow> Inl e
         | DoFails e \<Rightarrow> Inl e
         | Responds resp \<Rightarrow>
             (case D (pending (Body resp)) of
                Inl e \<Rightarrow> Inl e
              | Inr anthropicResp \<Rightarrow>
                  (case an_Error anthropicResp of
                     Some m \<Rightarrow> Inl (Opaque (''anthropic API error: '' @ m))
                   | None \<Rightarrow>
                       (case an_Content anthropicResp of
                          [] \<Rightarrow> Inl (Opaque ''no content in response'')
                        | b # bs \<Rightarrow>
                            Inr \<lparr>Content = cb_Text b,
                                 Model = an_Model anthropicResp,
                                 FinishReason = an_StopReason anthropicResp,
                                 ToolCalls = []\<rparr>)))),
      attempts = 1, delays = []\<rparr>"

section \<open>CompleteStream\<close>

text \<open>The result of \<^verbatim>\<open>CompleteStream\<close>, and the state it leaves the response body in
  (\<open>None\<close> when there is no response).\<close>

definition OpenAIClient_CompleteStream :: "exchange \<Rightarrow> (error + stream) \<times> ReadCloser option" where
  "OpenAIClient_CompleteStream x =
     (case x of
        MarshalFails e \<Rightarrow> (Inl (Wrapped ''failed to marshal request'' e), None)
      | NewRequestFails e \<Rightarrow> (Inl (Wrapped ''failed to create request'' e), None)
      | DoFails e \<Rightarrow> (Inl (Wrapped ''request failed'' e), None)
      | Responds resp \<Rightarrow>
          if StatusCode resp \<noteq> 200 then
            (case ReadAll (Close \<lparr>src = Body resp, closed = False\<rparr>) of
               (body, b) \<Rightarrow> (Inl (HTTPError (StatusCode resp) body), Some b))
          else
            (Inr \<lparr>reader = Body resp, closer = \<lparr>src = Body resp, closed = False\<rparr>\<rparr>,
             Some \<lparr>src = Body resp, closed = False\<rparr>))"

definition AnthropicClient_CompleteStream :: "exchange \<Rightarrow> (error + stream) \<times> ReadCloser option" where
  "AnthropicClient_CompleteStream x =
     (case x of
        MarshalFails e \<Rightarrow> (Inl e, None)
      | NewRequestFails e \<Rightarrow> (Inl e, None)
      | DoFails e \<Rightarrow> (Inl e, None)
      | Responds resp \<Rightarrow>
          (Inr \<lparr>reader = Body resp, closer = \<lparr>src = Body resp, closed = False\<rparr>\<rparr>,
           Some \<lparr>src = Body resp, closed = False\<rparr>))"

section \<open>Callers and inputs\<close>

text \<open>A caller that calls \<^verbatim>\<open>Recv\<close> \<open>n\<close> times in a row: the results, in order.\<close>

primrec Recv_times ::
  "(stream \<Rightarrow> recv_result \<times> stream) \<Rightarrow> nat \<Rightarrow> stream \<Rightarrow> recv_result list" where
  "Recv_times recv 0 s = []"
| "Recv_times recv (Suc n) s = (case recv s of (res, s') \<Rightarrow> res # Recv_times recv n s')"

text \<open>A line that makes the loop of \<^verbatim>\<open>openAIStream.Recv\<close> neither decode nor fail: it is
  blank, or lacks the prefix, or carries the sentinel. Unread input is \<open>quiet\<close> when
  all its complete lines are such lines.\<close>

definition ignored :: "string \<Rightarrow> bool" where
  "ignored line =
     (if TrimSpace line = [] then True
      else if HasPrefix (TrimSpace line) ''data: '' then
        TrimSpace (TrimPrefix (TrimSpace line) ''data: '') = ''[DONE]''
      else True)"

function quiet :: "string \<Rightarrow> bool" where
  "quiet t = (case cut_line t of None \<Rightarrow> True | Some (l, rest) \<Rightarrow> ignored l \<and> quiet rest)"
  by pat_completeness auto
termination
proof -
  have cut: "length rest < length t" if "cut_line t = Some (l, rest)" for t l rest
    using that by (induction t arbitrary: l) (auto split: if_splits option.splits)
  show ?thesis
    by (relation "measure length") (auto dest: cut)
qed

declare quiet.simps [simp del]

text \<open>
  The streams of the package's tests (\<^verbatim>\<open>TestOpenAIClient_CompleteStream\<close>,
  \<^verbatim>\<open>TestAnthropicClient_CompleteStream\<close>), and what \<^verbatim>\<open>json.Unmarshal\<close> returns on
  their events: the values the decoder parameter takes in the examples below.
\<close>

definition zero_message :: openaiMessage where
  "zero_message =
     \<lparr>msg_Role = [], msg_Content = [], msg_ToolCalls = [], msg_ToolCallID = [], msg_Name = []\<rparr>"

definition delta_chunk :: "string \<Rightarrow> openaiResponse" where
  "delta_chunk c =
     \<lparr>oa_ID = [],
      oa_Choices = [\<lparr>ch_Message = zero_message, ch_FinishReason = [],
                     ch_Delta = zero_message\<lparr>msg_Content := c\<rparr>\<rparr>],
      oa_Model = [], oa_Error = None\<rparr>"

definition openai_test_Unmarshal :: "string \<Rightarrow> string + openaiResponse" where
  \<open>openai_test_Unmarshal d =
     (if d = ''{"choices":[{"delta":{"content":"Hello"}}]}'' then Inr (delta_chunk ''Hello'')
      else if d = ''{"choices":[{"delta":{"content":" World"}}]}'' then
        Inr (delta_chunk '' World'')
      else if d = ''{"choices":[]}'' then Inr ((delta_chunk [])\<lparr>oa_Choices := []\<rparr>)
      else Inl ''invalid character'')\<close>

definition text_chunk :: "string \<Rightarrow> anthropicResponse" where
  "text_chunk c =
     \<lparr>an_Content = [\<lparr>cb_Text = c, cb_Type = ''text''\<rparr>],
      an_Model = ''claude-3-opus-20240229'', an_StopReason = [], an_Error = None\<rparr>"

definition anthropic_test_Unmarshal :: "string \<Rightarrow> string + anthropicResponse" where
  \<open>anthropic_test_Unmarshal d =
     (if d = ''{"content":[{"type":"text","text":"Hello"}],"model":"claude-3-opus-20240229"}''
             @ [LF] then
        Inr (text_chunk ''Hello'')
      else if d = ''{"content":[{"type":"text","text":" World"}],"model":"claude-3-opus-20240229"}''
             @ [LF] then
        Inr (text_chunk '' World'')
      else if d = ''{"content":[]}'' @ [LF] then Inr ((text_chunk [])\<lparr>an_Content := []\<rparr>)
      else Inl ''invalid character'')\<close>

definition body_stream :: "string \<Rightarrow> stream" where
  "body_stream bytes =
     \<lparr>reader = \<lparr>pending = bytes, ending = EOF\<rparr>,
      closer = \<lparr>src = \<lparr>pending = bytes, ending = EOF\<rparr>, closed = False\<rparr>\<rparr>"

definition openai_test_body :: string where
  \<open>openai_test_body =
     ''data: {"choices":[{"delta":{"content":"Hello"}}]}'' @ [LF, LF] @
     ''data: {"choices":[{"delta":{"content":" World"}}]}'' @ [LF, LF] @
     ''data: [DONE]'' @ [LF, LF]\<close>

definition anthropic_test_body :: string where
  \<open>anthropic_test_body =
     ''data: {"content":[{"type":"text","text":"Hello"}],"model":"claude-3-opus-20240229"}''
       @ [LF, LF] @
     ''data: {"content":[{"type":"text","text":" World"}],"model":"claude-3-opus-20240229"}''
       @ [LF, LF] @
     ''data: [DONE]'' @ [LF, LF]\<close>

text \<open>
  The servers of \<^verbatim>\<open>TestOpenAIClient_RetryBehavior\<close> (status 429 twice, then a
  completion) and of the "API error" cases (status 401 with an error object), with what
  the JSON decoder returns on their bodies.
\<close>

definition retry_test_body :: string where
  \<open>retry_test_body =
     ''{"id":"","choices":[{"message":{"role":"","content":"Success after retry"},''
     @ ''"finish_reason":"","delta":{"role":"","content":""}}],"model":""}'' @ [LF]\<close>

definition error_test_body :: string where
  \<open>error_test_body = ''{"error":{"message":"Invalid API key"}}''\<close>

definition openai_test_Decode :: "string \<Rightarrow> error + openaiResponse" where
  "openai_test_Decode d =
     (if d = retry_test_body then
        Inr \<lparr>oa_ID = [],
             oa_Choices = [\<lparr>ch_Message = zero_message\<lparr>msg_Content := ''Success after retry''\<rparr>,
                            ch_FinishReason = [], ch_Delta = zero_message\<rparr>],
             oa_Model = [], oa_Error = None\<rparr>
      else if d = error_test_body then
        Inr \<lparr>oa_ID = [], oa_Choices = [], oa_Model = [], oa_Error = Some ''Invalid API key''\<rparr>
      else if d = [] then Inl EOF
      else Inl (Opaque ''invalid character''))"

definition anthropic_test_Decode :: "string \<Rightarrow> error + anthropicResponse" where
  "anthropic_test_Decode d =
     (if d = error_test_body then
        Inr \<lparr>an_Content = [], an_Model = [], an_StopReason = [],
             an_Error = Some ''Invalid API key''\<rparr>
      else if d = [] then Inl EOF
      else Inl (Opaque ''invalid character''))"

definition body_of :: "string \<Rightarrow> reader" where
  "body_of bytes = \<lparr>pending = bytes, ending = EOF\<rparr>"

definition retry_test_config :: RetryConfig where
  "retry_test_config =
     \<lparr>MaxRetries = 3, InitialDelay = 10 * 1000000, MaxDelay = 50 * 1000000,
      RetryableStatusCodes = [429]\<rparr>"

definition retry_test_server :: "nat \<Rightarrow> exchange" where
  "retry_test_server k =
     (if k < 2 then Responds \<lparr>StatusCode = 429, Body = body_of []\<rparr>
      else Responds \<lparr>StatusCode = 200, Body = body_of retry_test_body\<rparr>)"

definition error_test_server :: "nat \<Rightarrow> exchange" where
  "error_test_server k = Responds \<lparr>StatusCode = 401, Body = body_of error_test_body\<rparr>"

text \<open>A server that always answers 429, a context that is never cancelled, and one whose
  cancellation is received by the \<^verbatim>\<open>select\<close> before attempt \<open>n\<close>.\<close>

definition busy_server :: "nat \<Rightarrow> exchange" where
  "busy_server k = Responds \<lparr>StatusCode = 429, Body = body_of []\<rparr>"

definition no_cancel :: "nat \<Rightarrow> ctx_error option" where
  "no_cancel k = None"

definition cancel_at :: "nat \<Rightarrow> nat \<Rightarrow> ctx_error option" where
  "cancel_at n k = (if k = n then Some Canceled else None)"

text \<open>A server that answers 200 with a given body, one that cannot be reached, and a
  body with no choices with what the JSON decoder returns on it.\<close>

definition ok_server :: "string \<Rightarrow> nat \<Rightarrow> exchange" where
  "ok_server body k = Responds \<lparr>StatusCode = 200, Body = body_of body\<rparr>"

definition down_server :: "nat \<Rightarrow> exchange" where
  "down_server k = DoFails (Opaque ''dial tcp: connection refused'')"

definition no_choices_body :: string where
  \<open>no_choices_body = ''{"choices":[]}''\<close>

definition no_choices_Decode :: "string \<Rightarrow> error + openaiResponse" where
  "no_choices_Decode d =
     (if d = no_choices_body then
        Inr \<lparr>oa_ID = [], oa_Choices = [], oa_Model = [], oa_Error = None\<rparr>
      else Inl (Opaque ''invalid character''))"


section \<open>Reading lines\<close>

lemma cut_line_append:
  "LF \<notin> set l \<Longrightarrow> cut_line (l @ LF # rest) = Some (l @ [LF], rest)"
  by (induction l) auto

lemma ReadBytes_line:
  "pending r = l @ LF # rest \<Longrightarrow> LF \<notin> set l \<Longrightarrow>
   ReadBytes r = (l @ [LF], None, r\<lparr>pending := rest\<rparr>)"
  by (simp add: ReadBytes_def cut_line_append)

lemma ReadBytes_ending: "ending (snd (snd (ReadBytes r))) = ending r"
  by (simp add: ReadBytes_def split: option.splits)

section \<open>The end of an OpenAI stream\<close>

lemma openAIStream_Recv_keeps_ending:
  "ending (reader (snd (openAIStream_Recv U s))) = ending (reader s)"
proof (induction U s rule: openAIStream_Recv.induct)
  case (1 U s)
  obtain line err r' where rb: "ReadBytes (reader s) = (line, err, r')"
    by (cases "ReadBytes (reader s)") auto
  have e: "ending r' = ending (reader s)"
    using ReadBytes_ending [of "reader s"] rb by simp
  show ?case
  proof (cases err)
    case (Some a)
    with rb e show ?thesis by (subst openAIStream_Recv.simps) simp
  next
    case None
    with rb e "1.IH" [OF rb [symmetric]] show ?thesis
      by (subst openAIStream_Recv.simps)
         (auto split: sum.splits option.splits list.splits)
  qed
qed

lemma quiet_Nil: "quiet []"
  by (simp add: quiet.simps)

lemma openAIStream_Recv_quiet:
  "quiet (pending (reader s)) \<Longrightarrow> ending (reader s) = EOF \<Longrightarrow>
   fst (openAIStream_Recv U s) = Inl EOF \<and>
   quiet (pending (reader (snd (openAIStream_Recv U s))))"
proof (induction U s rule: openAIStream_Recv.induct)
  case (1 U s)
  obtain line err r' where rb: "ReadBytes (reader s) = (line, err, r')"
    by (cases "ReadBytes (reader s)") auto
  show ?case
  proof (cases "cut_line (pending (reader s))")
    case None
    with rb have "err = Some EOF" "pending r' = []"
      using "1.prems" by (auto simp: ReadBytes_def)
    with rb show ?thesis by (subst (1 2) openAIStream_Recv.simps) (simp add: quiet_Nil)
  next
    case (Some p)
    obtain l rest where p: "p = (l, rest)" by (cases p)
    with Some rb have eq: "line = l" "err = None" "r' = (reader s)\<lparr>pending := rest\<rparr>"
      by (auto simp: ReadBytes_def)
    from "1.prems" Some p have ig: "ignored l" and q: "quiet rest"
      by (simp_all add: quiet.simps [of "pending (reader s)"])
    have IH: "fst (openAIStream_Recv U (s\<lparr>reader := r'\<rparr>)) = Inl EOF \<and>
       quiet (pending (reader (snd (openAIStream_Recv U (s\<lparr>reader := r'\<rparr>)))))"
      if "TrimSpace l = [] \<or> \<not> HasPrefix (TrimSpace l) ''data: ''"
      using that "1.IH"(1,2) [OF rb [symmetric, unfolded eq(2)]] q "1.prems"(2) eq
      by auto
    show ?thesis
      using ig rb eq q IH
      by (subst (1 2) openAIStream_Recv.simps) (auto simp: ignored_def split: if_splits)
  qed
qed

lemma openAIStream_Recv_times_quiet:
  "quiet (pending (reader s)) \<Longrightarrow> ending (reader s) = EOF \<Longrightarrow>
   Recv_times (openAIStream_Recv U) n s = replicate n (Inl EOF)"
proof (induction n arbitrary: s)
  case 0
  show ?case by simp
next
  case (Suc n)
  obtain res s' where step: "openAIStream_Recv U s = (res, s')"
    by (cases "openAIStream_Recv U s")
  from openAIStream_Recv_quiet [OF Suc.prems, of U] step
  have res: "res = Inl EOF" and q: "quiet (pending (reader s'))"
    by simp_all
  from openAIStream_Recv_keeps_ending [of U s] step Suc.prems(2)
  have e: "ending (reader s') = EOF"
    by simp
  from Suc.IH [OF q e] step res show ?case
    by simp
qed

lemma anthropicStream_Recv_EOF:
  "fst (anthropicStream_Recv U s) = Inl EOF \<Longrightarrow>
   pending (reader (snd (anthropicStream_Recv U s))) = [] \<and>
   ending (reader (snd (anthropicStream_Recv U s))) = EOF"
  by (auto simp: anthropicStream_Recv_def ReadBytes_def
           split: option.splits if_splits sum.splits list.splits)

lemma anthropicStream_Recv_times_exhausted:
  "pending (reader s) = [] \<Longrightarrow> ending (reader s) = EOF \<Longrightarrow>
   Recv_times (anthropicStream_Recv U) n s = replicate n (Inl EOF)"
proof (induction n arbitrary: s)
  case 0
  show ?case by simp
next
  case (Suc n)
  from Suc.prems have step:
    "anthropicStream_Recv U s = (Inl EOF, s\<lparr>reader := (reader s)\<lparr>pending := []\<rparr>\<rparr>)"
    by (simp add: anthropicStream_Recv_def ReadBytes_def)
  have "Recv_times (anthropicStream_Recv U) n (s\<lparr>reader := (reader s)\<lparr>pending := []\<rparr>\<rparr>)
          = replicate n (Inl EOF)"
    using Suc.prems by (intro Suc.IH) simp_all
  with step show ?case by simp
qed

text \<open>
  C1, as the spec states it: once \<^verbatim>\<open>Recv\<close> has returned end-of-stream, every later
  \<^verbatim>\<open>Recv\<close> returns end-of-stream too. \<^verbatim>\<open>openAIStream\<close> keeps no record of having
  seen the sentinel: the next call goes on reading the body. On a body whose sentinel
  is followed by one more event, the first call returns end-of-stream and the second
  returns the fragment of that event.
\<close>

theorem Recv_after_DONE_counterexample:
  \<open>Recv_times (openAIStream_Recv openai_test_Unmarshal) 2
     (body_stream (''data: [DONE]'' @ [LF] @
        ''data: {"choices":[{"delta":{"content":"Hello"}}]}'' @ [LF]))
   = [Inl EOF,
      Inr (Some \<lparr>Content = ''Hello'', Model = [], FinishReason = [], ToolCalls = []\<rparr>)]\<close>
  by code_simp

text \<open>
  C1, amended: once \<^verbatim>\<open>Recv\<close> has returned end-of-stream, each of the next \<open>n\<close> calls
  returns end-of-stream as well, for \<^verbatim>\<open>anthropicStream\<close> always (its end-of-stream is
  the end of the body), and for \<^verbatim>\<open>openAIStream\<close> when the body ends cleanly and the
  unread input is quiet: none of its complete lines is a \<^verbatim>\<open>data: \<close> event other than
  the sentinel. That is so in particular when the input is used up.
\<close>

theorem Recv_EOF_idempotent:
  "(fst (anthropicStream_Recv U s) = Inl EOF \<longrightarrow>
      Recv_times (anthropicStream_Recv U) n (snd (anthropicStream_Recv U s))
        = replicate n (Inl EOF)) \<and>
   (fst (openAIStream_Recv V t) = Inl EOF \<and>
    quiet (pending (reader (snd (openAIStream_Recv V t)))) \<and>
    ending (reader t) = EOF \<longrightarrow>
      Recv_times (openAIStream_Recv V) n (snd (openAIStream_Recv V t))
        = replicate n (Inl EOF))"
proof (intro conjI impI)
  assume "fst (anthropicStream_Recv U s) = Inl EOF"
  from anthropicStream_Recv_EOF [OF this]
  show "Recv_times (anthropicStream_Recv U) n (snd (anthropicStream_Recv U s))
          = replicate n (Inl EOF)"
    by (intro anthropicStream_Recv_times_exhausted) simp_all
next
  assume a: "fst (openAIStream_Recv V t) = Inl EOF \<and>
    quiet (pending (reader (snd (openAIStream_Recv V t)))) \<and> ending (reader t) = EOF"
  then have "ending (reader (snd (openAIStream_Recv V t))) = EOF"
    by (simp add: openAIStream_Recv_keeps_ending)
  with a show "Recv_times (openAIStream_Recv V) n (snd (openAIStream_Recv V t))
          = replicate n (Inl EOF)"
    by (intro openAIStream_Recv_times_quiet) simp_all
qed

theorem Recv_EOF_idempotent_witness:
  "fst (anthropicStream_Recv anthropic_test_Unmarshal (body_stream ''data: '')) = Inl EOF \<and>
   Recv_times (anthropicStream_Recv anthropic_test_Unmarshal) 3
     (snd (anthropicStream_Recv anthropic_test_Unmarshal (body_stream ''data: '')))
     = replicate 3 (Inl EOF) \<and>
   fst (openAIStream_Recv openai_test_Unmarshal (body_stream (''data: [DONE]'' @ [LF, LF])))
     = Inl EOF \<and>
   quiet (pending (reader (snd (openAIStream_Recv openai_test_Unmarshal
     (body_stream (''data: [DONE]'' @ [LF, LF])))))) \<and>
   ending (reader (body_stream (''data: [DONE]'' @ [LF, LF]))) = EOF \<and>
   Recv_times (openAIStream_Recv openai_test_Unmarshal) 3
     (snd (openAIStream_Recv openai_test_Unmarshal (body_stream (''data: [DONE]'' @ [LF, LF]))))
     = replicate 3 (Inl EOF)"
proof -
  have a: "fst (anthropicStream_Recv anthropic_test_Unmarshal (body_stream ''data: ''))
             = Inl EOF"
    by code_simp
  have b: "fst (openAIStream_Recv openai_test_Unmarshal
             (body_stream (''data: [DONE]'' @ [LF, LF]))) = Inl EOF"
    by code_simp
  have c: "quiet (pending (reader (snd (openAIStream_Recv openai_test_Unmarshal
             (body_stream (''data: [DONE]'' @ [LF, LF]))))))"
    by code_simp
  have d: "ending (reader (body_stream (''data: [DONE]'' @ [LF, LF]))) = EOF"
    by (simp add: body_stream_def)
  from a b c d
    Recv_EOF_idempotent [of anthropic_test_Unmarshal "body_stream ''data: ''" 3
      openai_test_Unmarshal "body_stream (''data: [DONE]'' @ [LF, LF])"]
  show ?thesis
    by blast
qed

section \<open>One event of a stream\<close>

lemma HasPrefix_data_nonempty: "HasPrefix line ''data: '' \<Longrightarrow> line \<noteq> []"
  by (auto simp: HasPrefix_def)

lemma openAIStream_Recv_skip:
  assumes "pending (reader s) = l @ LF # rest" and "LF \<notin> set l"
    and "TrimSpace (l @ [LF]) = [] \<or> \<not> HasPrefix (TrimSpace (l @ [LF])) ''data: ''"
  shows "openAIStream_Recv U s = openAIStream_Recv U (s\<lparr>reader := (reader s)\<lparr>pending := rest\<rparr>\<rparr>)"
  using assms(3)
  by (subst openAIStream_Recv.simps) (auto simp: ReadBytes_line [OF assms(1,2)])

lemma openAIStream_Recv_DONE:
  assumes "pending (reader s) = l @ LF # rest" and "LF \<notin> set l"
    and "HasPrefix (TrimSpace (l @ [LF])) ''data: ''"
    and "TrimSpace (TrimPrefix (TrimSpace (l @ [LF])) ''data: '') = ''[DONE]''"
  shows "openAIStream_Recv U s = (Inl EOF, s\<lparr>reader := (reader s)\<lparr>pending := rest\<rparr>\<rparr>)"
  using assms(3,4) HasPrefix_data_nonempty [OF assms(3)]
  by (subst openAIStream_Recv.simps) (simp add: ReadBytes_line [OF assms(1,2)])

lemma anthropicStream_Recv_line_not_EOF:
  "pending (reader s) = l @ LF # rest \<Longrightarrow> LF \<notin> set l \<Longrightarrow>
   fst (anthropicStream_Recv U s) \<noteq> Inl EOF"
  by (simp add: anthropicStream_Recv_def ReadBytes_line
           split: sum.splits option.splits list.splits)

lemma openAIStream_Recv_test_stream:
  "Recv_times (openAIStream_Recv openai_test_Unmarshal) 4 (body_stream openai_test_body)
   = [Inr (Some \<lparr>Content = ''Hello'', Model = [], FinishReason = [], ToolCalls = []\<rparr>),
      Inr (Some \<lparr>Content = '' World'', Model = [], FinishReason = [], ToolCalls = []\<rparr>),
      Inl EOF, Inl EOF]"
  by code_simp

text \<open>
  C2: for both adapters, a \<^verbatim>\<open>data: \<close> event whose payload is the sentinel
  \<^verbatim>\<open>[DONE]\<close> makes \<^verbatim>\<open>Recv\<close> return end-of-stream. \<^verbatim>\<open>openAIStream.Recv\<close> does so
  (\<open>openAIStream_Recv_DONE\<close>, and \<open>openAIStream_Recv_test_stream\<close> for the stream of
  the test). \<^verbatim>\<open>anthropicStream.Recv\<close> has no test for the sentinel: it hands the
  payload to \<^verbatim>\<open>json.Unmarshal\<close>, and whatever that returns, the result is not
  end-of-stream. The package's own \<^verbatim>\<open>TestAnthropicClient_CompleteStream\<close> expects
  end-of-stream here.
\<close>

theorem anthropicStream_Recv_DONE_not_EOF:
  "fst (anthropicStream_Recv U (body_stream (''data: [DONE]'' @ [LF, LF]))) \<noteq> Inl EOF"
  using anthropicStream_Recv_line_not_EOF
    [of "body_stream (''data: [DONE]'' @ [LF, LF])" "''data: [DONE]''" "[LF]" U]
  by (simp add: body_stream_def LF_def)

text \<open>
  C3: for both adapters, \<^verbatim>\<open>Recv\<close> skips the blank lines that separate the events and
  returns the next fragment. \<^verbatim>\<open>openAIStream.Recv\<close> does (\<open>openAIStream_Recv_skip\<close>).
  \<^verbatim>\<open>anthropicStream.Recv\<close> reads one line per call and rejects a line without the
  prefix: on the stream of \<^verbatim>\<open>TestAnthropicClient_CompleteStream\<close>, where a blank line
  follows each event, the first call returns the first fragment and the second call
  fails on the separator, while the test expects the second fragment.
\<close>

theorem anthropicStream_Recv_blank_line:
  "Recv_times (anthropicStream_Recv anthropic_test_Unmarshal) 2 (body_stream anthropic_test_body)
   = [Inr (Some \<lparr>Content = ''Hello'', Model = ''claude-3-opus-20240229'',
                  FinishReason = [], ToolCalls = []\<rparr>),
      Inl (Opaque ''invalid SSE format'')]"
  by code_simp






section \<open>A status other than 200\<close>

lemma OpenAIClient_CompleteStream_non_200:
  "StatusCode resp \<noteq> 200 \<Longrightarrow>
   OpenAIClient_CompleteStream (Responds resp)
     = (Inl (HTTPError (StatusCode resp) []), Some \<lparr>src = Body resp, closed = True\<rparr>)"
  by (simp add: OpenAIClient_CompleteStream_def Close_def ReadAll_def)

lemma OpenAIClient_complete_non_200:
  "StatusCode resp \<noteq> 200 \<Longrightarrow>
   OpenAIClient_complete D (Responds resp)
     = Inl (HTTPError (StatusCode resp) (pending (Body resp)))"
  by (simp add: OpenAIClient_complete_def ReadAll_def)

text \<open>
  C4: for both providers, a status other than 200 makes \<^verbatim>\<open>CompleteStream\<close> return an
  error and no stream, with the body closed. \<^verbatim>\<open>OpenAIClient.CompleteStream\<close> returns
  the error with the body closed (\<open>OpenAIClient_CompleteStream_non_200\<close>; it closes the
  body before it reads it, so the message of the error is empty and the bytes stay
  unread). \<^verbatim>\<open>AnthropicClient.CompleteStream\<close> never reads the status: on the 401 of
  \<^verbatim>\<open>TestAnthropicClient_CompleteStream\<close>, which expects an error, it returns a stream
  over the open body.
\<close>

theorem AnthropicClient_CompleteStream_401:
  "AnthropicClient_CompleteStream (error_test_server 0)
     = (Inr \<lparr>reader = body_of error_test_body,
             closer = \<lparr>src = body_of error_test_body, closed = False\<rparr>\<rparr>,
        Some \<lparr>src = body_of error_test_body, closed = False\<rparr>)"
  by (simp add: AnthropicClient_CompleteStream_def error_test_server_def)

section \<open>The backoff delay\<close>

lemma wrap64_id: "- (2 ^ 63) \<le> x \<Longrightarrow> x < 2 ^ 63 \<Longrightarrow> wrap64 x = x"
  by (simp add: wrap64_def)

lemma getRetryDelay_in_range:
  assumes "1 \<le> n" and "n \<le> 63"
    and "- (2 ^ 63) \<le> InitialDelay cfg * 2 ^ nat (n - 1)"
    and "InitialDelay cfg * 2 ^ nat (n - 1) < 2 ^ 63"
  shows "getRetryDelay cfg n = min (InitialDelay cfg * 2 ^ nat (n - 1)) (MaxDelay cfg)"
proof -
  from assms(1,2) have count: "(n - 1) mod 18446744073709551616 = n - 1"
    by simp
  from assms(1,2) have "nat (n - 1) < 63"
    by simp
  then have "(2::int) ^ nat (n - 1) < 2 ^ 63"
    by (rule power_strict_increasing) simp
  moreover have "- (2 ^ 63) \<le> (2::int) ^ nat (n - 1)"
    by (rule order_trans [of _ 0]) simp_all
  ultimately have factor: "wrap64 (2 ^ nat (n - 1)) = 2 ^ nat (n - 1)"
    by (intro wrap64_id)
  from assms(3,4) have delay: "wrap64 (InitialDelay cfg * 2 ^ nat (n - 1))
      = InitialDelay cfg * 2 ^ nat (n - 1)"
    by (rule wrap64_id)
  from assms(2) show ?thesis
    by (simp add: getRetryDelay_def count factor delay Let_def min_def)
qed

lemma getRetryDelay_default:
  "map (getRetryDelay (NewOpenAIClient None)) [1, 2, 3]
     = [1000000000, 2 * 1000000000, 4 * 1000000000]"
  by (simp add: getRetryDelay_def NewOpenAIClient_def wrap64_def)

text \<open>
  C9: before attempt \<open>n \<ge> 1\<close> the delay is \<open>min (initial_delay * 2^(n-1)) max_delay\<close>.
  That holds while the product fits a 64-bit duration (\<open>getRetryDelay_in_range\<close>), so
  for the default policy's delays of 1s, 2s and 4s (\<open>getRetryDelay_default\<close>). The
  code multiplies before it compares with the maximum: with the default delays of 1s
  and 5s and a policy of 35 retries or more, the product before attempt 35 wraps
  around to a negative duration, which is below the maximum and is returned as the
  delay, where the formula gives 5s.
\<close>

theorem getRetryDelay_overflow:
  "getRetryDelay \<lparr>MaxRetries = 40, InitialDelay = 1000000000, MaxDelay = 5 * 1000000000,
                  RetryableStatusCodes = [429, 500, 502, 503]\<rparr> 35
     = - 1266874889709551616 \<and>
   min (1000000000 * 2 ^ (35 - 1)) (5 * 1000000000) = (5000000000 :: int)"
  by (simp add: getRetryDelay_def wrap64_def)

section \<open>The retry loop\<close>

lemma Complete_loop_step:
  "int attempt \<le> MaxRetries cfg \<Longrightarrow> (0 < attempt \<Longrightarrow> ctx attempt = None) \<Longrightarrow>
   OpenAIClient_complete D (xs attempt) = Inl e \<Longrightarrow> shouldRetry cfg e \<Longrightarrow>
   Complete_loop cfg D xs ctx attempt lastErr calls ds
     = Complete_loop cfg D xs ctx (Suc attempt) (Some e) (Suc calls)
         (if attempt > 0 then ds @ [getRetryDelay cfg (int attempt)] else ds)"
  by (subst Complete_loop.simps) auto

lemma backoff_Suc:
  "backoff cfg (Suc n)
     = (if n > 0 then backoff cfg n @ [getRetryDelay cfg (int n)] else backoff cfg n)"
  by (auto simp: backoff_def)

lemma Complete_loop_prefix:
  assumes "\<forall>k<n. retryable_failure cfg D (xs k)"
    and "\<forall>k<n. 0 < k \<longrightarrow> ctx k = None"
    and "int n \<le> MaxRetries cfg + 1"
  shows "Complete_loop cfg D xs ctx 0 None 0 []
     = Complete_loop cfg D xs ctx n
         (if n = 0 then None else Some (projl (OpenAIClient_complete D (xs (n - 1)))))
         n (backoff cfg n)"
  using assms
proof (induction n)
  case 0
  show ?case by (simp add: backoff_def)
next
  case (Suc n)
  from Suc.prems have "retryable_failure cfg D (xs n)"
    by simp
  then obtain e where e: "OpenAIClient_complete D (xs n) = Inl e" "shouldRetry cfg e"
    by (auto simp: retryable_failure_def split: sum.splits)
  from Suc.prems have c: "0 < n \<Longrightarrow> ctx n = None" and le: "int n \<le> MaxRetries cfg"
    by simp_all
  from Suc.prems have "Complete_loop cfg D xs ctx 0 None 0 []
     = Complete_loop cfg D xs ctx n
         (if n = 0 then None else Some (projl (OpenAIClient_complete D (xs (n - 1)))))
         n (backoff cfg n)"
    by (intro Suc.IH) simp_all
  also have "\<dots> = Complete_loop cfg D xs ctx (Suc n) (Some e) (Suc n) (backoff cfg (Suc n))"
    using Complete_loop_step [of n cfg ctx D xs e, OF le c e] by (simp add: backoff_Suc)
  finally show ?case
    using e by simp
qed

lemma shouldRetry_HTTPError:
  "shouldRetry cfg (HTTPError c m) = (c \<in> set (RetryableStatusCodes cfg))"
  by (simp add: shouldRetry_def)

lemma shouldRetry_Opaque: "\<not> shouldRetry cfg (Opaque m)"
  by (simp add: shouldRetry_def)

lemma shouldRetry_Wrapped: "shouldRetry cfg (Wrapped m e) = shouldRetry cfg e"
  by (simp add: shouldRetry_def)

lemma busy_retryable: "retryable_failure retry_test_config D (busy_server k)"
  by (simp add: retryable_failure_def busy_server_def OpenAIClient_complete_def
        shouldRetry_def retry_test_config_def)

text \<open>
  C5: when every attempt fails with an error the policy retries (and no cancellation
  is received), \<^verbatim>\<open>OpenAIClient.Complete\<close> makes \<open>MaxRetries + 1\<close> attempts and returns
  the error "max retries exceeded" that wraps the error of the last attempt; when \<open>n\<close>
  such failures are followed by a success, it returns that success after \<open>n + 1\<close>
  attempts. \<open>MaxRetries\<close> is a count: it is not negative.
\<close>

theorem Complete_attempts:
  "(0 \<le> MaxRetries cfg \<and>
    (\<forall>k. int k \<le> MaxRetries cfg \<longrightarrow> retryable_failure cfg D (xs k)) \<and>
    (\<forall>k. 0 < k \<and> int k \<le> MaxRetries cfg \<longrightarrow> ctx k = None) \<and>
    OpenAIClient_complete D (xs (nat (MaxRetries cfg))) = Inl e \<longrightarrow>
      result (OpenAIClient_Complete cfg D xs ctx) = Inl (Wrapped ''max retries exceeded'' e) \<and>
      int (attempts (OpenAIClient_Complete cfg D xs ctx)) = MaxRetries cfg + 1) \<and>
   (int n \<le> MaxRetries cfg \<and>
    (\<forall>k<n. retryable_failure cfg D (ys k)) \<and>
    (\<forall>k. 0 < k \<and> k \<le> n \<longrightarrow> ctx' k = None) \<and>
    OpenAIClient_complete D (ys n) = Inr resp \<longrightarrow>
      result (OpenAIClient_Complete cfg D ys ctx') = Inr resp \<and>
      attempts (OpenAIClient_Complete cfg D ys ctx') = n + 1)"
proof (intro conjI impI)
  assume a: "0 \<le> MaxRetries cfg \<and>
    (\<forall>k. int k \<le> MaxRetries cfg \<longrightarrow> retryable_failure cfg D (xs k)) \<and>
    (\<forall>k. 0 < k \<and> int k \<le> MaxRetries cfg \<longrightarrow> ctx k = None) \<and>
    OpenAIClient_complete D (xs (nat (MaxRetries cfg))) = Inl e"
  define N where "N = Suc (nat (MaxRetries cfg))"
  from a have N: "int N = MaxRetries cfg + 1"
    by (simp add: N_def)
  have "Complete_loop cfg D xs ctx 0 None 0 []
     = Complete_loop cfg D xs ctx N
         (if N = 0 then None else Some (projl (OpenAIClient_complete D (xs (N - 1)))))
         N (backoff cfg N)"
    using a N by (intro Complete_loop_prefix) auto
  also have "\<dots> = Complete_loop cfg D xs ctx N (Some e) N (backoff cfg N)"
    using a by (simp add: N_def)
  also have "\<dots> = \<lparr>result = Inl (Wrapped ''max retries exceeded'' e), attempts = N,
                     delays = backoff cfg N\<rparr>"
    using N by (subst Complete_loop.simps) (simp add: retries_exceeded_def)
  finally have "OpenAIClient_Complete cfg D xs ctx
     = \<lparr>result = Inl (Wrapped ''max retries exceeded'' e), attempts = N, delays = backoff cfg N\<rparr>"
    by (simp add: OpenAIClient_Complete_def)
  with N show "result (OpenAIClient_Complete cfg D xs ctx)
      = Inl (Wrapped ''max retries exceeded'' e)"
    and "int (attempts (OpenAIClient_Complete cfg D xs ctx)) = MaxRetries cfg + 1"
    by simp_all
next
  assume a: "int n \<le> MaxRetries cfg \<and>
    (\<forall>k<n. retryable_failure cfg D (ys k)) \<and>
    (\<forall>k. 0 < k \<and> k \<le> n \<longrightarrow> ctx' k = None) \<and>
    OpenAIClient_complete D (ys n) = Inr resp"
  have "Complete_loop cfg D ys ctx' 0 None 0 []
     = Complete_loop cfg D ys ctx' n
         (if n = 0 then None else Some (projl (OpenAIClient_complete D (ys (n - 1)))))
         n (backoff cfg n)"
    using a by (intro Complete_loop_prefix) auto
  also have "\<dots> = \<lparr>result = Inr resp, attempts = Suc n, delays = backoff cfg (Suc n)\<rparr>"
    using a by (subst Complete_loop.simps) (auto simp: backoff_Suc)
  finally have "OpenAIClient_Complete cfg D ys ctx'
     = \<lparr>result = Inr resp, attempts = Suc n, delays = backoff cfg (Suc n)\<rparr>"
    by (simp add: OpenAIClient_Complete_def)
  then show "result (OpenAIClient_Complete cfg D ys ctx') = Inr resp"
    and "attempts (OpenAIClient_Complete cfg D ys ctx') = n + 1"
    by simp_all
qed

theorem Complete_attempts_witness:
  "result (OpenAIClient_Complete retry_test_config openai_test_Decode busy_server no_cancel)
     = Inl (Wrapped ''max retries exceeded'' (HTTPError 429 [])) \<and>
   int (attempts (OpenAIClient_Complete retry_test_config openai_test_Decode busy_server no_cancel))
     = 3 + 1 \<and>
   result (OpenAIClient_Complete retry_test_config openai_test_Decode retry_test_server no_cancel)
     = Inr \<lparr>Content = ''Success after retry'', Model = [], FinishReason = [], ToolCalls = []\<rparr> \<and>
   attempts (OpenAIClient_Complete retry_test_config openai_test_Decode retry_test_server no_cancel)
     = 2 + 1"
proof -
  have a1: "0 \<le> MaxRetries retry_test_config"
    by (simp add: retry_test_config_def)
  have a2: "\<forall>k. int k \<le> MaxRetries retry_test_config \<longrightarrow>
      retryable_failure retry_test_config openai_test_Decode (busy_server k)"
    by (simp add: busy_retryable)
  have a3: "\<forall>k. 0 < k \<and> int k \<le> MaxRetries retry_test_config \<longrightarrow> no_cancel k = None"
    by (simp add: no_cancel_def)
  have a4: "OpenAIClient_complete openai_test_Decode
      (busy_server (nat (MaxRetries retry_test_config))) = Inl (HTTPError 429 [])"
    by (simp add: busy_server_def OpenAIClient_complete_def ReadAll_def body_of_def)
  have b1: "int 2 \<le> MaxRetries retry_test_config"
    by (simp add: retry_test_config_def)
  have b2: "\<forall>k<2. retryable_failure retry_test_config openai_test_Decode (retry_test_server k)"
    by (simp add: retryable_failure_def retry_test_server_def OpenAIClient_complete_def
          shouldRetry_def retry_test_config_def)
  have b3: "\<forall>k. 0 < k \<and> k \<le> 2 \<longrightarrow> no_cancel k = None"
    by (simp add: no_cancel_def)
  have b4: "OpenAIClient_complete openai_test_Decode (retry_test_server 2)
      = Inr \<lparr>Content = ''Success after retry'', Model = [], FinishReason = [], ToolCalls = []\<rparr>"
    by (simp add: retry_test_server_def OpenAIClient_complete_def openai_test_Decode_def
          body_of_def zero_message_def)
  from a1 a2 a3 a4 b1 b2 b3 b4
    Complete_attempts [of retry_test_config openai_test_Decode busy_server no_cancel
      "HTTPError 429 []" 2 retry_test_server no_cancel
      "\<lparr>Content = ''Success after retry'', Model = [], FinishReason = [], ToolCalls = []\<rparr>"]
  show ?thesis
    by (simp add: retry_test_config_def)
qed

lemma Complete_first_attempt_final:
  assumes "0 \<le> MaxRetries cfg"
    and "OpenAIClient_complete D (xs 0) = Inl e"
    and "\<not> shouldRetry cfg e"
  shows "OpenAIClient_Complete cfg D xs ctx = \<lparr>result = Inl e, attempts = 1, delays = []\<rparr>"
  using assms
  by (simp add: OpenAIClient_Complete_def Complete_loop.simps [of _ _ _ _ 0])

text \<open>
  C7: when the first attempt fails with an error that is not an \<^verbatim>\<open>HTTPError\<close> with a
  status of the retryable set, \<^verbatim>\<open>OpenAIClient.Complete\<close> returns that error after this
  one attempt and with no delay. The error is described by itself: no \<^verbatim>\<open>HTTPError\<close> is
  on its chain, or the one that is has a status outside the set. That covers the kinds
  the code produces: a transport failure and a decode failure whose cause carries no
  \<^verbatim>\<open>HTTPError\<close>, the API error of an error object, the error of an empty list of
  choices, and the \<^verbatim>\<open>HTTPError\<close> of a status outside the set.
\<close>

theorem Complete_no_retry:
  assumes "0 \<le> MaxRetries cfg"
  shows
    "(OpenAIClient_complete D (xs 0) = Inl e \<and>
      (errors_As_HTTPError e = None \<or>
       (\<exists>c m. errors_As_HTTPError e = Some (c, m) \<and> c \<notin> set (RetryableStatusCodes cfg))) \<longrightarrow>
        OpenAIClient_Complete cfg D xs ctx = \<lparr>result = Inl e, attempts = 1, delays = []\<rparr>) \<and>
     (xs 0 = DoFails t \<and> errors_As_HTTPError t = None \<longrightarrow>
        OpenAIClient_Complete cfg D xs ctx
          = \<lparr>result = Inl (Wrapped ''request failed'' t), attempts = 1, delays = []\<rparr>) \<and>
     (xs 0 = Responds resp \<and> StatusCode resp = 200 \<and>
      D (pending (Body resp)) = Inl d \<and> errors_As_HTTPError d = None \<longrightarrow>
        OpenAIClient_Complete cfg D xs ctx
          = \<lparr>result = Inl (Wrapped ''failed to decode response'' d), attempts = 1,
             delays = []\<rparr>) \<and>
     (xs 0 = Responds resp \<and> StatusCode resp = 200 \<and>
      D (pending (Body resp)) = Inr r \<and> oa_Error r = Some m \<longrightarrow>
        OpenAIClient_Complete cfg D xs ctx
          = \<lparr>result = Inl (Opaque (''OpenAI API error: '' @ m)), attempts = 1, delays = []\<rparr>) \<and>
     (xs 0 = Responds resp \<and> StatusCode resp = 200 \<and>
      D (pending (Body resp)) = Inr r \<and> oa_Error r = None \<and> oa_Choices r = [] \<longrightarrow>
        OpenAIClient_Complete cfg D xs ctx
          = \<lparr>result = Inl (Opaque ''no completion choices returned''), attempts = 1,
             delays = []\<rparr>) \<and>
     (xs 0 = Responds resp \<and> StatusCode resp \<noteq> 200 \<and>
      StatusCode resp \<notin> set (RetryableStatusCodes cfg) \<longrightarrow>
        OpenAIClient_Complete cfg D xs ctx
          = \<lparr>result = Inl (HTTPError (StatusCode resp) (pending (Body resp))), attempts = 1,
             delays = []\<rparr>)"
proof (intro conjI impI)
  assume a: "OpenAIClient_complete D (xs 0) = Inl e \<and>
    (errors_As_HTTPError e = None \<or>
     (\<exists>c m. errors_As_HTTPError e = Some (c, m) \<and> c \<notin> set (RetryableStatusCodes cfg)))"
  then have "\<not> shouldRetry cfg e"
    by (auto simp: shouldRetry_def)
  with assms a show "OpenAIClient_Complete cfg D xs ctx
      = \<lparr>result = Inl e, attempts = 1, delays = []\<rparr>"
    by (intro Complete_first_attempt_final) simp_all
next
  assume a: "xs 0 = DoFails t \<and> errors_As_HTTPError t = None"
  then have "OpenAIClient_complete D (xs 0) = Inl (Wrapped ''request failed'' t)"
    and "\<not> shouldRetry cfg (Wrapped ''request failed'' t)"
    by (simp_all add: OpenAIClient_complete_def shouldRetry_def)
  with assms show "OpenAIClient_Complete cfg D xs ctx
      = \<lparr>result = Inl (Wrapped ''request failed'' t), attempts = 1, delays = []\<rparr>"
    by (intro Complete_first_attempt_final)
next
  assume a: "xs 0 = Responds resp \<and> StatusCode resp = 200 \<and>
    D (pending (Body resp)) = Inl d \<and> errors_As_HTTPError d = None"
  then have "OpenAIClient_complete D (xs 0) = Inl (Wrapped ''failed to decode response'' d)"
    and "\<not> shouldRetry cfg (Wrapped ''failed to decode response'' d)"
    by (simp_all add: OpenAIClient_complete_def shouldRetry_def)
  with assms show "OpenAIClient_Complete cfg D xs ctx
      = \<lparr>result = Inl (Wrapped ''failed to decode response'' d), attempts = 1, delays = []\<rparr>"
    by (intro Complete_first_attempt_final)
next
  assume a: "xs 0 = Responds resp \<and> StatusCode resp = 200 \<and>
    D (pending (Body resp)) = Inr r \<and> oa_Error r = Some m"
  then have "OpenAIClient_complete D (xs 0) = Inl (Opaque (''OpenAI API error: '' @ m))"
    and "\<not> shouldRetry cfg (Opaque (''OpenAI API error: '' @ m))"
    by (simp_all add: OpenAIClient_complete_def shouldRetry_def)
  with assms show "OpenAIClient_Complete cfg D xs ctx
      = \<lparr>result = Inl (Opaque (''OpenAI API error: '' @ m)), attempts = 1, delays = []\<rparr>"
    by (intro Complete_first_attempt_final)
next
  assume a: "xs 0 = Responds resp \<and> StatusCode resp = 200 \<and>
    D (pending (Body resp)) = Inr r \<and> oa_Error r = None \<and> oa_Choices r = []"
  then have "OpenAIClient_complete D (xs 0) = Inl (Opaque ''no completion choices returned'')"
    and "\<not> shouldRetry cfg (Opaque ''no completion choices returned'')"
    by (simp_all add: OpenAIClient_complete_def shouldRetry_def)
  with assms show "OpenAIClient_Complete cfg D xs ctx
      = \<lparr>result = Inl (Opaque ''no completion choices returned''), attempts = 1, delays = []\<rparr>"
    by (intro Complete_first_attempt_final)
next
  assume a: "xs 0 = Responds resp \<and> StatusCode resp \<noteq> 200 \<and>
    StatusCode resp \<notin> set (RetryableStatusCodes cfg)"
  then have "OpenAIClient_complete D (xs 0)
      = Inl (HTTPError (StatusCode resp) (pending (Body resp)))"
    and "\<not> shouldRetry cfg (HTTPError (StatusCode resp) (pending (Body resp)))"
    by (simp_all add: OpenAIClient_complete_def shouldRetry_def ReadAll_def)
  with assms show "OpenAIClient_Complete cfg D xs ctx
      = \<lparr>result = Inl (HTTPError (StatusCode resp) (pending (Body resp))), attempts = 1,
         delays = []\<rparr>"
    by (intro Complete_first_attempt_final)
qed

theorem Complete_no_retry_witness:
  "OpenAIClient_Complete retry_test_config openai_test_Decode down_server no_cancel
     = \<lparr>result = Inl (Wrapped ''request failed'' (Opaque ''dial tcp: connection refused'')),
        attempts = 1, delays = []\<rparr> \<and>
   OpenAIClient_Complete retry_test_config openai_test_Decode (ok_server []) no_cancel
     = \<lparr>result = Inl (Wrapped ''failed to decode response'' EOF), attempts = 1, delays = []\<rparr> \<and>
   OpenAIClient_Complete retry_test_config openai_test_Decode (ok_server error_test_body) no_cancel
     = \<lparr>result = Inl (Opaque ''OpenAI API error: Invalid API key''), attempts = 1,
        delays = []\<rparr> \<and>
   OpenAIClient_Complete retry_test_config no_choices_Decode (ok_server no_choices_body) no_cancel
     = \<lparr>result = Inl (Opaque ''no completion choices returned''), attempts = 1,
        delays = []\<rparr> \<and>
   OpenAIClient_Complete retry_test_config openai_test_Decode error_test_server no_cancel
     = \<lparr>result = Inl (HTTPError 401 error_test_body), attempts = 1, delays = []\<rparr>"
proof -
  have m: "0 \<le> MaxRetries retry_test_config"
    by (simp add: retry_test_config_def)
  have t1: "down_server 0 = DoFails (Opaque ''dial tcp: connection refused'') \<and>
      errors_As_HTTPError (Opaque ''dial tcp: connection refused'') = None"
    by (simp add: down_server_def)
  from t1 Complete_no_retry [where D = openai_test_Decode and xs = down_server and ctx = no_cancel
      and t = "Opaque ''dial tcp: connection refused''", OF m]
  have c1: "OpenAIClient_Complete retry_test_config openai_test_Decode down_server no_cancel
     = \<lparr>result = Inl (Wrapped ''request failed'' (Opaque ''dial tcp: connection refused'')),
        attempts = 1, delays = []\<rparr>"
    by blast
  have t2: "ok_server [] 0 = Responds \<lparr>StatusCode = 200, Body = body_of []\<rparr> \<and>
      StatusCode \<lparr>StatusCode = 200, Body = body_of []\<rparr> = 200 \<and>
      openai_test_Decode (pending (Body \<lparr>StatusCode = 200, Body = body_of []\<rparr>)) = Inl EOF \<and>
      errors_As_HTTPError EOF = None"
    by (simp add: ok_server_def body_of_def openai_test_Decode_def retry_test_body_def
          error_test_body_def)
  from t2 Complete_no_retry [where D = openai_test_Decode and xs = "ok_server []" and ctx = no_cancel
      and resp = "\<lparr>StatusCode = 200, Body = body_of []\<rparr>" and d = EOF, OF m]
  have c2: "OpenAIClient_Complete retry_test_config openai_test_Decode (ok_server []) no_cancel
     = \<lparr>result = Inl (Wrapped ''failed to decode response'' EOF), attempts = 1, delays = []\<rparr>"
    by blast
  have t3: "ok_server error_test_body 0
        = Responds \<lparr>StatusCode = 200, Body = body_of error_test_body\<rparr> \<and>
      StatusCode \<lparr>StatusCode = 200, Body = body_of error_test_body\<rparr> = 200 \<and>
      openai_test_Decode (pending (Body \<lparr>StatusCode = 200, Body = body_of error_test_body\<rparr>))
        = Inr \<lparr>oa_ID = [], oa_Choices = [], oa_Model = [],
               oa_Error = Some ''Invalid API key''\<rparr> \<and>
      oa_Error \<lparr>oa_ID = [], oa_Choices = [], oa_Model = [],
               oa_Error = Some ''Invalid API key''\<rparr> = Some ''Invalid API key''"
    by (simp add: ok_server_def body_of_def openai_test_Decode_def retry_test_body_def
          error_test_body_def)
  from t3 Complete_no_retry [where D = openai_test_Decode and xs = "ok_server error_test_body"
      and ctx = no_cancel and resp = "\<lparr>StatusCode = 200, Body = body_of error_test_body\<rparr>"
      and r = "\<lparr>oa_ID = [], oa_Choices = [], oa_Model = [],
                oa_Error = Some ''Invalid API key''\<rparr>"
      and m = "''Invalid API key''", OF m]
  have "OpenAIClient_Complete retry_test_config openai_test_Decode (ok_server error_test_body)
       no_cancel
     = \<lparr>result = Inl (Opaque (''OpenAI API error: '' @ ''Invalid API key'')), attempts = 1,
        delays = []\<rparr>"
    by blast
  then have c3: "OpenAIClient_Complete retry_test_config openai_test_Decode
       (ok_server error_test_body) no_cancel
     = \<lparr>result = Inl (Opaque ''OpenAI API error: Invalid API key''), attempts = 1,
        delays = []\<rparr>"
    by simp
  have t4: "ok_server no_choices_body 0
        = Responds \<lparr>StatusCode = 200, Body = body_of no_choices_body\<rparr> \<and>
      StatusCode \<lparr>StatusCode = 200, Body = body_of no_choices_body\<rparr> = 200 \<and>
      no_choices_Decode (pending (Body \<lparr>StatusCode = 200, Body = body_of no_choices_body\<rparr>))
        = Inr \<lparr>oa_ID = [], oa_Choices = [], oa_Model = [], oa_Error = None\<rparr> \<and>
      oa_Error \<lparr>oa_ID = [], oa_Choices = [], oa_Model = [], oa_Error = None\<rparr> = None \<and>
      oa_Choices \<lparr>oa_ID = [], oa_Choices = [], oa_Model = [], oa_Error = None\<rparr> = []"
    by (simp add: ok_server_def body_of_def no_choices_Decode_def)
  from t4 Complete_no_retry [where D = no_choices_Decode and xs = "ok_server no_choices_body"
      and ctx = no_cancel and resp = "\<lparr>StatusCode = 200, Body = body_of no_choices_body\<rparr>"
      and r = "\<lparr>oa_ID = [], oa_Choices = [], oa_Model = [], oa_Error = None\<rparr>", OF m]
  have c4: "OpenAIClient_Complete retry_test_config no_choices_Decode
       (ok_server no_choices_body) no_cancel
     = \<lparr>result = Inl (Opaque ''no completion choices returned''), attempts = 1,
        delays = []\<rparr>"
    by blast
  have t5: "error_test_server 0 = Responds \<lparr>StatusCode = 401, Body = body_of error_test_body\<rparr> \<and>
      StatusCode \<lparr>StatusCode = 401, Body = body_of error_test_body\<rparr> \<noteq> 200 \<and>
      StatusCode \<lparr>StatusCode = 401, Body = body_of error_test_body\<rparr>
        \<notin> set (RetryableStatusCodes retry_test_config)"
    by (simp add: error_test_server_def retry_test_config_def)
  from t5 Complete_no_retry [where D = openai_test_Decode and xs = error_test_server
      and ctx = no_cancel and resp = "\<lparr>StatusCode = 401, Body = body_of error_test_body\<rparr>",
      OF m]
  have "OpenAIClient_Complete retry_test_config openai_test_Decode error_test_server no_cancel
     = \<lparr>result = Inl (HTTPError (StatusCode \<lparr>StatusCode = 401, Body = body_of error_test_body\<rparr>)
          (pending (Body \<lparr>StatusCode = 401, Body = body_of error_test_body\<rparr>))),
        attempts = 1, delays = []\<rparr>"
    by blast
  then have c5: "OpenAIClient_Complete retry_test_config openai_test_Decode error_test_server
       no_cancel
     = \<lparr>result = Inl (HTTPError 401 error_test_body), attempts = 1, delays = []\<rparr>"
    by (simp add: body_of_def)
  from c1 c2 c3 c4 c5 show ?thesis
    by blast
qed

text \<open>
  C8: when the cancellation is received during the wait before attempt \<open>n\<close>, after
  \<open>n\<close> attempts that failed with retryable errors, \<^verbatim>\<open>OpenAIClient.Complete\<close> returns
  the error of the context at once: it has made the attempts \<open>0, \<dots>, n - 1\<close> and no
  other, and the error is not the error "max retries exceeded".
\<close>

theorem Complete_cancelled:
  assumes "0 < n" and "int n \<le> MaxRetries cfg"
    and "\<forall>k<n. retryable_failure cfg D (xs k)"
    and "\<forall>k<n. 0 < k \<longrightarrow> ctx k = None"
    and "ctx n = Some ce"
  shows "OpenAIClient_Complete cfg D xs ctx
       = \<lparr>result = Inl (ContextError ce), attempts = n, delays = backoff cfg (Suc n)\<rparr> \<and>
     result (OpenAIClient_Complete cfg D xs ctx) \<noteq> Inl (retries_exceeded lastErr)"
proof -
  have "Complete_loop cfg D xs ctx 0 None 0 []
     = Complete_loop cfg D xs ctx n
         (if n = 0 then None else Some (projl (OpenAIClient_complete D (xs (n - 1)))))
         n (backoff cfg n)"
    using assms by (intro Complete_loop_prefix) auto
  also have "\<dots> = \<lparr>result = Inl (ContextError ce), attempts = n, delays = backoff cfg (Suc n)\<rparr>"
    using assms by (subst Complete_loop.simps) (simp add: backoff_Suc)
  finally have "OpenAIClient_Complete cfg D xs ctx
     = \<lparr>result = Inl (ContextError ce), attempts = n, delays = backoff cfg (Suc n)\<rparr>"
    by (simp add: OpenAIClient_Complete_def)
  then show ?thesis
    by (simp add: retries_exceeded_def split: option.splits)
qed

theorem Complete_cancelled_witness:
  "OpenAIClient_Complete retry_test_config openai_test_Decode busy_server (cancel_at 2)
     = \<lparr>result = Inl (ContextError Canceled), attempts = 2,
        delays = [10 * 1000000, 20 * 1000000]\<rparr> \<and>
   result (OpenAIClient_Complete retry_test_config openai_test_Decode busy_server (cancel_at 2))
     \<noteq> Inl (retries_exceeded (Some (HTTPError 429 [])))"
proof -
  have a1: "0 < (2::nat)" by simp
  have a2: "int 2 \<le> MaxRetries retry_test_config"
    by (simp add: retry_test_config_def)
  have a3: "\<forall>k<2. retryable_failure retry_test_config openai_test_Decode (busy_server k)"
    by (simp add: busy_retryable)
  have a4: "\<forall>k<2. 0 < k \<longrightarrow> cancel_at 2 k = None"
    by (simp add: cancel_at_def)
  have a5: "cancel_at 2 2 = Some Canceled"
    by (simp add: cancel_at_def)
  have d: "backoff retry_test_config (Suc 2) = [10 * 1000000, 20 * 1000000]"
    by (simp add: backoff_def getRetryDelay_def retry_test_config_def wrap64_def upt_rec)
  from Complete_cancelled
      [of 2 retry_test_config openai_test_Decode busy_server "cancel_at 2" Canceled
        "Some (HTTPError 429 [])", OF a1 a2 a3 a4 a5] d
  show ?thesis
    by (simp add: retries_exceeded_def)
qed

section \<open>AnthropicClient.Complete and the status\<close>

text \<open>
  C10: \<^verbatim>\<open>AnthropicClient.Complete\<close> makes one attempt and arms no timer; its outcome
  depends on the first exchange only, and not on the status of the response; the
  result follows from decoding the body: the decoder's error, the API error of an
  error object, the error of an empty content list, or the completion. An error that
  is an \<^verbatim>\<open>HTTPError\<close> can only be one the decoder itself returned.
\<close>

theorem AnthropicClient_Complete_one_pass:
  "attempts (AnthropicClient_Complete D xs) = 1 \<and>
   delays (AnthropicClient_Complete D xs) = [] \<and>
   (xs 0 = ys 0 \<longrightarrow> AnthropicClient_Complete D xs = AnthropicClient_Complete D ys) \<and>
   AnthropicClient_Complete D (\<lambda>k. Responds \<lparr>StatusCode = c, Body = b\<rparr>)
     = AnthropicClient_Complete D (\<lambda>k. Responds \<lparr>StatusCode = c', Body = b\<rparr>) \<and>
   (xs 0 = Responds resp \<longrightarrow>
      (\<forall>e. D (pending (Body resp)) = Inl e \<longrightarrow>
         result (AnthropicClient_Complete D xs) = Inl e) \<and>
      (\<forall>r m. D (pending (Body resp)) = Inr r \<and> an_Error r = Some m \<longrightarrow>
         result (AnthropicClient_Complete D xs) = Inl (Opaque (''anthropic API error: '' @ m))) \<and>
      (\<forall>r. D (pending (Body resp)) = Inr r \<and> an_Error r = None \<and> an_Content r = [] \<longrightarrow>
         result (AnthropicClient_Complete D xs) = Inl (Opaque ''no content in response'')) \<and>
      (\<forall>r blk blks. D (pending (Body resp)) = Inr r \<and> an_Error r = None \<and>
           an_Content r = blk # blks \<longrightarrow>
         result (AnthropicClient_Complete D xs)
           = Inr \<lparr>Content = cb_Text blk, Model = an_Model r, FinishReason = an_StopReason r,
                  ToolCalls = []\<rparr>) \<and>
      (\<forall>e. result (AnthropicClient_Complete D xs) = Inl e \<and> errors_As_HTTPError e \<noteq> None \<longrightarrow>
         D (pending (Body resp)) = Inl e))"
  by (auto simp: AnthropicClient_Complete_def split: sum.splits option.splits list.splits)

theorem AnthropicClient_Complete_one_pass_witness:
  "attempts (AnthropicClient_Complete anthropic_test_Decode error_test_server) = 1 \<and>
   delays (AnthropicClient_Complete anthropic_test_Decode error_test_server) = [] \<and>
   AnthropicClient_Complete anthropic_test_Decode error_test_server
     = AnthropicClient_Complete anthropic_test_Decode
         (\<lambda>k. if k = 0 then error_test_server 0 else busy_server k) \<and>
   result (AnthropicClient_Complete anthropic_test_Decode error_test_server)
     = Inl (Opaque ''anthropic API error: Invalid API key'')"
proof -
  have a1: "error_test_server 0 = (\<lambda>k. if k = 0 then error_test_server 0 else busy_server k) 0"
    by simp
  have a2: "error_test_server 0 = Responds \<lparr>StatusCode = 401, Body = body_of error_test_body\<rparr>"
    by (simp add: error_test_server_def)
  have a3: "anthropic_test_Decode (pending (Body \<lparr>StatusCode = 401, Body = body_of error_test_body\<rparr>))
      = Inr \<lparr>an_Content = [], an_Model = [], an_StopReason = [],
             an_Error = Some ''Invalid API key''\<rparr>
      \<and> an_Error \<lparr>an_Content = [], an_Model = [], an_StopReason = [],
             an_Error = Some ''Invalid API key''\<rparr> = Some ''Invalid API key''"
    by (simp add: anthropic_test_Decode_def body_of_def)
  note inst = AnthropicClient_Complete_one_pass [of anthropic_test_Decode error_test_server
      "\<lambda>k. if k = 0 then error_test_server 0 else busy_server k" 401 "body_of error_test_body" 200
      "\<lparr>StatusCode = 401, Body = body_of error_test_body\<rparr>"]
  from inst have c1: "attempts (AnthropicClient_Complete anthropic_test_Decode error_test_server) = 1"
    and c2: "delays (AnthropicClient_Complete anthropic_test_Decode error_test_server) = []"
    by blast+
  from inst a1 have c3: "AnthropicClient_Complete anthropic_test_Decode error_test_server
     = AnthropicClient_Complete anthropic_test_Decode
         (\<lambda>k. if k = 0 then error_test_server 0 else busy_server k)"
    by blast
  from inst a2 a3 have "result (AnthropicClient_Complete anthropic_test_Decode error_test_server)
     = Inl (Opaque (''anthropic API error: '' @ ''Invalid API key''))"
    by blast
  then have c4: "result (AnthropicClient_Complete anthropic_test_Decode error_test_server)
     = Inl (Opaque ''anthropic API error: Invalid API key'')"
    by simp
  from c1 c2 c3 c4 show ?thesis
    by blast
qed


end
